theory Spec2Isabelle
  imports Complex_Main "HOL-Library.Sublist"
begin

section \<open>The arm skill of robot\_skills (arms.py)\<close>

text \<open>
  A shallow embedding of the class \<open>Arm\<close> of \<^verbatim>\<open>src/robot_skills/arms.py\<close>.
  The object \<open>self\<close> is a record that every method takes and returns. Everything a
  method does to the outside (log lines, markers, goals handed to an action client,
  waits) is appended, in program order, to the field \<open>trace\<close>. What the outside
  answers (the status an action client reports, whether a wait ended in time, the
  reply on a topic) is an extra argument of the method. A Python exception is the
  \<open>Inl\<close> branch of the result.

  Pose and joint values are Python numbers: the type variable \<open>'a\<close> stands for them
  and only its \<open>+\<close> and \<open>0\<close> are used, so nothing depends on the laws of a particular
  arithmetic. The entity held by the gripper is opaque: the type variable \<open>'e\<close>.
  Timeouts are only compared with zero, scaled by a length and passed on: they are
  \<open>real\<close>. The time stamps of message headers (\<^verbatim>\<open>rospy.Time.now()\<close>) are left out.
\<close>

subsection \<open>Messages\<close>

text \<open>\<^verbatim>\<open>actionlib.GoalStatus\<close>, the status codes 0 to 9.\<close>

datatype GoalStatus =
  PENDING | ACTIVE | PREEMPTED | SUCCEEDED | ABORTED | REJECTED
  | PREEMPTING | RECALLING | RECALLED | LOST

text \<open>\<^verbatim>\<open>diagnostic_msgs/DiagnosticStatus\<close> (the fields read) and \<^verbatim>\<open>DiagnosticArray\<close>.\<close>

record DiagnosticStatus =
  diag_name :: string
  diag_level :: int

record DiagnosticArray =
  status :: "DiagnosticStatus list"

text \<open>
  The stamped pose that is both the \<open>goal\<close> and the \<open>delta\<close> field of a
  \<^verbatim>\<open>GraspPrecomputeGoal\<close>: a frame id and six scalars.
\<close>

record 'a StampedPose =
  frame_id :: string
  p_x :: 'a
  p_y :: 'a
  p_z :: 'a
  p_roll :: 'a
  p_pitch :: 'a
  p_yaw :: 'a

record 'a GraspPrecomputeGoal =
  goal :: "'a StampedPose"
  delta :: "'a StampedPose"
  PERFORM_PRE_GRASP :: bool
  FIRST_JOINT_POS_ONLY :: bool
  allowed_touch_objects :: "string list"

text \<open>\<^verbatim>\<open>tue_msgs/GripperCommand\<close> directions.\<close>

datatype GripperDirection = OPEN | CLOSE

text \<open>
  The colour argument of \<^verbatim>\<open>_publish_marker\<close> is indexed at 0, 1 and 2: a list of
  three numbers in \<^verbatim>\<open>send_goal\<close>, the string \<^verbatim>\<open>"red"\<close> in \<^verbatim>\<open>send_delta_goal\<close>.
\<close>

datatype MarkerColor = Rgb int int int | Chars char char char

record 'a Marker =
  m_frame_id :: string
  m_type :: int
  m_x :: 'a
  m_y :: 'a
  m_z :: 'a
  m_lifetime :: real
  m_scale :: "real \<times> real \<times> real"
  m_ns :: string
  m_alpha :: int
  m_color :: MarkerColor

record 'a JointTrajectoryPoint =
  positions :: "'a list"
  time_from_start :: real

record 'a FollowJointTrajectoryGoal =
  traj_joint_names :: "string list"
  traj_points :: "'a JointTrajectoryPoint list"
  goal_time_tolerance :: real

subsection \<open>Effects\<close>

text \<open>
  The arguments saved by \<^verbatim>\<open>myargs = locals()\<close> at the head of \<^verbatim>\<open>send_goal\<close> and
  \<^verbatim>\<open>send_delta_goal\<close> and echoed when the goal fails. The argument only one of the
  two has (\<^verbatim>\<open>allowed_touch_objects\<close>, \<^verbatim>\<open>use_offset\<close>) is carried by the log line.
\<close>

record 'a CallArgs =
  a_px :: 'a
  a_py :: 'a
  a_pz :: 'a
  a_roll :: 'a
  a_pitch :: 'a
  a_yaw :: 'a
  a_timeout :: real
  a_pre_grasp :: bool
  a_frame_id :: string
  a_first_joint_pos_only :: bool

text \<open>One constructor for each log line of the file.\<close>

datatype 'a LogMsg =
    NoDiagnostic string
  | MultipleDiagnostics string
  | GraspFrameId string
  | GraspGoalFailed "'a CallArgs" "string list"
  | GraspDeltaGoalFailed "'a CallArgs" bool
  | ConfigurationMissing string
  | TrajectoriesMissing string
  | BadGripperState string
  | JointTrajectoryAbsent
  | JointCountMismatch nat nat
  | SendToJointCoords string "'a JointTrajectoryPoint list"
  | CannotReachJointGoal "'a FollowJointTrajectoryGoal"
  | HandoverException

datatype 'a Event =
    LogInfo "'a LogMsg"
  | LogWarn "'a LogMsg"
  | LogErr "'a LogMsg"
  | LogDebug "'a LogMsg"
  | Print string
  | PublishMarker "'a Marker"
  | GraspSendGoal "'a GraspPrecomputeGoal"
  | GraspSendGoalAndWait "'a GraspPrecomputeGoal" real
  | GripperSendGoal GripperDirection
  | GripperWaitForResult real
  | JointTrajWaitForServer real
  | JointTrajSendGoal "'a FollowJointTrajectoryGoal"
  | JointTrajWaitForResult real
  | PublishBool string bool
  | WaitForMessage string real

datatype PyError = KeyError string | UnboundLocalError string

subsection \<open>The arm object\<close>

record ('a, 'e) Arm =
  robot_name :: string
  side :: string
  offset :: "string \<rightharpoonup> 'a"
  joint_names :: "string list"
  default_configurations :: "string \<rightharpoonup> 'a list"
  default_trajectories :: "string \<rightharpoonup> 'a list list"
  occupied_by :: "'e option"
  operational :: bool
  ac_joint_traj_present :: bool
  trace :: "'a Event list"

definition emit :: "'a Event \<Rightarrow> ('a, 'e) Arm \<Rightarrow> ('a, 'e) Arm" where
  "emit ev self = self\<lparr>trace := trace self @ [ev]\<rparr>"

text \<open>The events a call appended: the trace after it, less the trace before it.\<close>

definition emitted :: "('a, 'e) Arm \<Rightarrow> ('a, 'e) Arm \<Rightarrow> 'a Event list" where
  "emitted self self' = drop (length (trace self)) (trace self')"

subsection \<open>Hardware status\<close>

text \<open>
  \<^verbatim>\<open>cb_hardware_status\<close>: the sub-reports named \<^verbatim>\<open>side + '_arm'\<close> are collected; none
  or several only log a warning; a single one sets the flag from its level.
\<close>

definition cb_hardware_status :: "('a, 'e) Arm \<Rightarrow> DiagnosticArray \<Rightarrow> ('a, 'e) Arm" where
  "cb_hardware_status self msg =
     (let diags = filter (\<lambda>diag. diag_name diag = side self @ ''_arm'') (status msg) in
      if length diags = 0 then emit (LogWarn (NoDiagnostic (side self))) self
      else if length diags \<noteq> 1 then emit (LogWarn (MultipleDiagnostics (side self))) self
      else
        (let level = diag_level (diags ! 0) in
         if level \<noteq> 2 then self\<lparr>operational := False\<rparr>
         else self\<lparr>operational := True\<rparr>))"

subsection \<open>Frame ids\<close>

text \<open>
  Python's \<^verbatim>\<open>s.find(sub)\<close>: the lowest index at which \<open>sub\<close> occurs in \<open>s\<close>, or
  \<open>-1\<close> when it does not occur.
\<close>

fun str_find :: "'c list \<Rightarrow> 'c list \<Rightarrow> int" where
  "str_find [] sub = (if sub = [] then 0 else -1)"
| "str_find (c # cs) sub =
     (if prefix sub (c # cs) then 0
      else (let r = str_find cs sub in if r < 0 then -1 else r + 1))"

text \<open>
  The first statement of \<^verbatim>\<open>send_goal\<close>:
  \<^verbatim>\<open>if frame_id.find(self.robot_name) < 0: frame_id = "/"+self.robot_name+frame_id\<close>.
\<close>

definition prefix_frame_id :: "string \<Rightarrow> string \<Rightarrow> string" where
  "prefix_frame_id name fid =
     (if str_find fid name < 0 then ''/'' @ name @ fid else fid)"

subsection \<open>Cartesian goals\<close>

text \<open>A freshly constructed message: numbers are zero, strings and lists empty.\<close>

definition new_StampedPose :: "'a::zero StampedPose" where
  "new_StampedPose =
     \<lparr>frame_id = [], p_x = 0, p_y = 0, p_z = 0, p_roll = 0, p_pitch = 0, p_yaw = 0\<rparr>"

definition new_GraspPrecomputeGoal :: "'a::zero GraspPrecomputeGoal" where
  "new_GraspPrecomputeGoal =
     \<lparr>goal = new_StampedPose, delta = new_StampedPose, PERFORM_PRE_GRASP = False,
      FIRST_JOINT_POS_ONLY = False, allowed_touch_objects = []\<rparr>"

text \<open>\<^verbatim>\<open>_publish_marker\<close>: a sphere (type 2) at the position of the goal's \<open>goal\<close> field.\<close>

definition u_publish_marker ::
  "('a, 'e) Arm \<Rightarrow> 'a GraspPrecomputeGoal \<Rightarrow> MarkerColor \<Rightarrow> string \<Rightarrow> ('a, 'e) Arm" where
  "u_publish_marker self g color ns =
     emit (PublishMarker
        \<lparr>m_frame_id = frame_id (goal g), m_type = 2,
         m_x = p_x (goal g), m_y = p_y (goal g), m_z = p_z (goal g),
         m_lifetime = 20, m_scale = (0.05, 0.05, 0.05), m_ns = ns,
         m_alpha = 1, m_color = color\<rparr>) self"

text \<open>
  The six statements \<^verbatim>\<open>goal.x += self.offset['x']\<close> ... \<^verbatim>\<open>goal.yaw += self.offset['yaw']\<close>,
  in their order; a key the dictionary lacks raises \<^verbatim>\<open>KeyError\<close>.
\<close>

definition add_offset :: "(string \<rightharpoonup> 'a::plus) \<Rightarrow> 'a StampedPose \<Rightarrow> PyError + 'a StampedPose" where
  "add_offset off p =
     (case off ''x'' of None \<Rightarrow> Inl (KeyError ''x'') | Some ox \<Rightarrow>
      case off ''y'' of None \<Rightarrow> Inl (KeyError ''y'') | Some oy \<Rightarrow>
      case off ''z'' of None \<Rightarrow> Inl (KeyError ''z'') | Some oz \<Rightarrow>
      case off ''roll'' of None \<Rightarrow> Inl (KeyError ''roll'') | Some oroll \<Rightarrow>
      case off ''pitch'' of None \<Rightarrow> Inl (KeyError ''pitch'') | Some opitch \<Rightarrow>
      case off ''yaw'' of None \<Rightarrow> Inl (KeyError ''yaw'') | Some oyaw \<Rightarrow>
        Inr (p\<lparr>p_x := p_x p + ox, p_y := p_y p + oy, p_z := p_z p + oz,
               p_roll := p_roll p + oroll, p_pitch := p_pitch p + opitch,
               p_yaw := p_yaw p + oyaw\<rparr>))"

text \<open>
  \<^verbatim>\<open>send_goal\<close>. The last argument is the status that \<^verbatim>\<open>send_goal_and_wait\<close> returns;
  it is read on the blocking path only.
\<close>

definition send_goal ::
  "('a::{zero,plus}, 'e) Arm \<Rightarrow> 'a \<Rightarrow> 'a \<Rightarrow> 'a \<Rightarrow> 'a \<Rightarrow> 'a \<Rightarrow> 'a \<Rightarrow> real \<Rightarrow> bool \<Rightarrow> string \<Rightarrow> bool
     \<Rightarrow> string list \<Rightarrow> GoalStatus \<Rightarrow> (PyError + bool) \<times> ('a, 'e) Arm" where
  "send_goal self px py pz roll pitch yaw timeout pre_grasp fid first_joint_pos_only
       touch result =
     (let myargs = \<lparr>a_px = px, a_py = py, a_pz = pz, a_roll = roll, a_pitch = pitch,
                     a_yaw = yaw, a_timeout = timeout, a_pre_grasp = pre_grasp,
                     a_frame_id = fid, a_first_joint_pos_only = first_joint_pos_only\<rparr>;
          fid1 = prefix_frame_id (robot_name self) fid;
          self1 = (if str_find fid (robot_name self) < 0
                   then emit (LogInfo (GraspFrameId fid1)) self else self);
          g = new_GraspPrecomputeGoal
                \<lparr>goal := \<lparr>frame_id = fid1, p_x = px, p_y = py, p_z = pz,
                           p_roll = roll, p_pitch = pitch, p_yaw = yaw\<rparr>,
                 PERFORM_PRE_GRASP := pre_grasp,
                 FIRST_JOINT_POS_ONLY := first_joint_pos_only,
                 allowed_touch_objects := touch\<rparr>;
          self2 = u_publish_marker self1 g (Rgb 1 0 0) ''grasp_point''
      in case add_offset (offset self) (goal g) of
           Inl err \<Rightarrow> (Inl err, self2)
         | Inr corrected \<Rightarrow>
            (let g1 = g\<lparr>goal := corrected\<rparr>;
                 self3 = u_publish_marker self2 g1 (Rgb 0 1 0) ''grasp_point_corrected''
             in if timeout = 0 then (Inr True, emit (GraspSendGoal g1) self3)
                else
                  (let self4 = emit (GraspSendGoalAndWait g1 timeout) self3
                   in if result = SUCCEEDED then (Inr True, self4)
                      else (Inr False, emit (LogErr (GraspGoalFailed myargs touch)) self4))))"

text \<open>
  \<^verbatim>\<open>send_delta_goal\<close>. Its argument \<^verbatim>\<open>use_offset\<close> is not read by the body, and the
  frame id is taken as given.
\<close>

definition send_delta_goal ::
  "('a::{zero,plus}, 'e) Arm \<Rightarrow> 'a \<Rightarrow> 'a \<Rightarrow> 'a \<Rightarrow> 'a \<Rightarrow> 'a \<Rightarrow> 'a \<Rightarrow> real \<Rightarrow> bool \<Rightarrow> string \<Rightarrow> bool
     \<Rightarrow> bool \<Rightarrow> GoalStatus \<Rightarrow> bool \<times> ('a, 'e) Arm" where
  "send_delta_goal self px py pz roll pitch yaw timeout pre_grasp fid use_offset
       first_joint_pos_only result =
     (let myargs = \<lparr>a_px = px, a_py = py, a_pz = pz, a_roll = roll, a_pitch = pitch,
                     a_yaw = yaw, a_timeout = timeout, a_pre_grasp = pre_grasp,
                     a_frame_id = fid, a_first_joint_pos_only = first_joint_pos_only\<rparr>;
          g = new_GraspPrecomputeGoal
                \<lparr>delta := \<lparr>frame_id = fid, p_x = px, p_y = py, p_z = pz,
                            p_roll = roll, p_pitch = pitch, p_yaw = yaw\<rparr>,
                 PERFORM_PRE_GRASP := pre_grasp,
                 FIRST_JOINT_POS_ONLY := first_joint_pos_only\<rparr>;
          self1 = u_publish_marker self g (Chars CHR ''r'' CHR ''e'' CHR ''d'') []
      in if timeout = 0 then (True, emit (GraspSendGoal g) self1)
         else
           (let self2 = emit (GraspSendGoalAndWait g timeout) self1
            in if result = SUCCEEDED then (True, self2)
               else (False, emit (LogErr (GraspDeltaGoalFailed myargs use_offset)) self2)))"

subsection \<open>Joint goals\<close>

text \<open>
  The loop of \<^verbatim>\<open>_send_joint_trajectory\<close>: a waypoint of the wrong length is logged
  (the line prints the number of waypoints, \<^verbatim>\<open>len(joints_references)\<close>) and is
  appended like any other. \<open>n\<close> is that number of waypoints.
\<close>

fun joints_loop ::
  "('a, 'e) Arm \<Rightarrow> nat \<Rightarrow> 'a list list \<Rightarrow> 'a JointTrajectoryPoint list
     \<Rightarrow> ('a, 'e) Arm \<times> 'a JointTrajectoryPoint list" where
  "joints_loop self n [] ps = (self, ps)"
| "joints_loop self n (joints_reference # rest) ps =
     (let self1 = (if length joints_reference \<noteq> length (joint_names self)
                   then emit (LogWarn (JointCountMismatch (length (joint_names self)) n)) self
                   else self)
      in joints_loop self1 n rest
           (ps @ [\<lparr>positions = joints_reference, time_from_start = 0\<rparr>]))"

text \<open>
  \<^verbatim>\<open>_send_joint_trajectory\<close>. \<open>probe\<close> is what \<^verbatim>\<open>wait_for_server\<close> answers when the
  endpoint was absent, \<open>done\<close> what \<^verbatim>\<open>wait_for_result\<close> answers. The variable
  \<^verbatim>\<open>done\<close> of the source is assigned under \<^verbatim>\<open>if timeout != 0.0\<close> only, and
  \<^verbatim>\<open>return done\<close> follows that \<^verbatim>\<open>if\<close>: with a zero timeout the name is unbound.
\<close>

definition u_send_joint_trajectory ::
  "('a, 'e) Arm \<Rightarrow> 'a list list \<Rightarrow> real \<Rightarrow> bool \<Rightarrow> bool \<Rightarrow> (PyError + bool) \<times> ('a, 'e) Arm" where
  "u_send_joint_trajectory self joints_references timeout probe done =
     (let self1 = (if \<not> ac_joint_traj_present self
                   then (emit (JointTrajWaitForServer 0.25) self)
                          \<lparr>ac_joint_traj_present := probe\<rparr>
                   else self)
      in if \<not> ac_joint_traj_present self1
         then (Inr False, emit (LogWarn JointTrajectoryAbsent) self1)
         else
           (let (self2, ps) = joints_loop self1 (length joints_references) joints_references [];
                g = \<lparr>traj_joint_names = joint_names self2, traj_points = ps,
                     goal_time_tolerance = timeout\<rparr>;
                self3 = emit (LogDebug (SendToJointCoords (side self2) ps)) self2;
                self4 = emit (JointTrajSendGoal g) self3
            in if timeout \<noteq> 0 then
                 (let self5 = emit (JointTrajWaitForResult
                                      (timeout * real (length joints_references))) self4
                  in if \<not> done
                     then (Inr done, emit (LogWarn (CannotReachJointGoal g)) self5)
                     else (Inr done, self5))
               else (Inl (UnboundLocalError ''done''), self4)))"

text \<open>
  \<^verbatim>\<open>send_joint_goal\<close> and \<^verbatim>\<open>send_joint_trajectory\<close> look a name up and call
  \<^verbatim>\<open>_send_joint_trajectory\<close> with its default timeout, \<^verbatim>\<open>rospy.Duration(5)\<close>.
\<close>

definition send_joint_goal ::
  "('a, 'e) Arm \<Rightarrow> string \<Rightarrow> bool \<Rightarrow> bool \<Rightarrow> (PyError + bool) \<times> ('a, 'e) Arm" where
  "send_joint_goal self configuration probe done =
     (case default_configurations self configuration of
        Some c \<Rightarrow> u_send_joint_trajectory self [c] 5 probe done
      | None \<Rightarrow> (Inr False, emit (LogWarn (ConfigurationMissing configuration)) self))"

definition send_joint_trajectory ::
  "('a, 'e) Arm \<Rightarrow> string \<Rightarrow> bool \<Rightarrow> bool \<Rightarrow> (PyError + bool) \<times> ('a, 'e) Arm" where
  "send_joint_trajectory self configuration probe done =
     (case default_trajectories self configuration of
        Some t \<Rightarrow> u_send_joint_trajectory self t 5 probe done
      | None \<Rightarrow> (Inr False, emit (LogWarn (TrajectoriesMissing configuration)) self))"

subsection \<open>Gripper\<close>

text \<open>
  \<^verbatim>\<open>send_gripper_goal\<close>. The timeout may be \<^verbatim>\<open>None\<close>. The last argument is what
  \<^verbatim>\<open>get_state\<close> answers after the wait.
\<close>

definition send_gripper_goal ::
  "('a, 'e) Arm \<Rightarrow> string \<Rightarrow> real option \<Rightarrow> GoalStatus \<Rightarrow> bool \<times> ('a, 'e) Arm" where
  "send_gripper_goal self state timeout gstate =
     (if state \<noteq> ''open'' \<and> state \<noteq> ''close''
      then (False, emit (LogErr (BadGripperState state)) self)
      else
        (let direction = (if state = ''open'' then OPEN else CLOSE);
             self1 = emit (GripperSendGoal direction) self
         in case timeout of
              None \<Rightarrow> (True, if state = ''open'' then self1\<lparr>occupied_by := None\<rparr> else self1)
            | Some t \<Rightarrow>
                if t = 0
                then (True, if state = ''open'' then self1\<lparr>occupied_by := None\<rparr> else self1)
                else
                  (let self2 = emit (GripperWaitForResult t) self1
                   in if gstate = SUCCEEDED
                      then (True, if state = ''open'' then self2\<lparr>occupied_by := None\<rparr>
                                  else self2)
                      else (False, self2))))"

subsection \<open>Handover\<close>

text \<open>
  \<^verbatim>\<open>handover_to_human\<close> and \<^verbatim>\<open>handover_to_robot\<close>. \<open>reply\<close> is the outcome of
  \<^verbatim>\<open>rospy.wait_for_message\<close>: the message that arrived in time, or \<open>None\<close> when it
  raised \<^verbatim>\<open>ROSException\<close>.
\<close>

definition handover_result_topic :: "('a, 'e) Arm \<Rightarrow> string" where
  "handover_result_topic self =
     ''/'' @ robot_name self @ ''/handoverdetector_'' @ side self @ ''/result''"

definition handover_to_human ::
  "('a, 'e) Arm \<Rightarrow> real \<Rightarrow> bool option \<Rightarrow> bool \<times> ('a, 'e) Arm" where
  "handover_to_human self timeout reply =
     (let self1 = emit (PublishBool (''/'' @ robot_name self @ ''/handoverdetector_''
                                       @ side self @ ''/toggle_robot2human'') True) self;
          self2 = emit (WaitForMessage (handover_result_topic self) timeout) self1
      in case reply of
           Some b \<Rightarrow> (True, emit (Print (handover_result_topic self)) self2)
         | None \<Rightarrow> (False, emit (LogErr HandoverException) self2))"

definition handover_to_robot ::
  "('a, 'e) Arm \<Rightarrow> real \<Rightarrow> bool option \<Rightarrow> bool \<times> ('a, 'e) Arm" where
  "handover_to_robot self timeout reply =
     (let self1 = emit (PublishBool (''/'' @ robot_name self @ ''/handoverdetector_''
                                       @ side self @ ''/toggle_human2robot'') True) self;
          self2 = emit (WaitForMessage (handover_result_topic self) timeout) self1
      in case reply of
           Some b \<Rightarrow> (True, emit (Print (handover_result_topic self)) self2)
         | None \<Rightarrow> (False, emit (LogErr HandoverException) self2))"

subsection \<open>Reading a trace\<close>

fun markers_of :: "'a Event list \<Rightarrow> 'a Marker list" where
  "markers_of [] = []"
| "markers_of (PublishMarker m # evs) = m # markers_of evs"
| "markers_of (ev # evs) = markers_of evs"

text \<open>The goals handed to the Cartesian endpoint, by either way of sending.\<close>

fun grasp_goals_of :: "'a Event list \<Rightarrow> 'a GraspPrecomputeGoal list" where
  "grasp_goals_of [] = []"
| "grasp_goals_of (GraspSendGoal g # evs) = g # grasp_goals_of evs"
| "grasp_goals_of (GraspSendGoalAndWait g t # evs) = g # grasp_goals_of evs"
| "grasp_goals_of (ev # evs) = grasp_goals_of evs"

fun joint_goals_of :: "'a Event list \<Rightarrow> 'a FollowJointTrajectoryGoal list" where
  "joint_goals_of [] = []"
| "joint_goals_of (JointTrajSendGoal g # evs) = g # joint_goals_of evs"
| "joint_goals_of (ev # evs) = joint_goals_of evs"

fun gripper_goals_of :: "'a Event list \<Rightarrow> GripperDirection list" where
  "gripper_goals_of [] = []"
| "gripper_goals_of (GripperSendGoal d # evs) = d # gripper_goals_of evs"
| "gripper_goals_of (ev # evs) = gripper_goals_of evs"

text \<open>Whether an event is a blocking wait on an endpoint.\<close>

fun is_wait :: "'a Event \<Rightarrow> bool" where
  "is_wait (GraspSendGoalAndWait g t) = True"
| "is_wait (GripperWaitForResult t) = True"
| "is_wait (JointTrajWaitForResult t) = True"
| "is_wait ev = False"

subsection \<open>An arm to run the methods on\<close>

definition amigo_left :: "(int, string) Arm" where
  "amigo_left =
     \<lparr>robot_name = ''amigo'', side = ''left'',
      offset = [''x'' \<mapsto> 1, ''y'' \<mapsto> 2, ''z'' \<mapsto> 3, ''roll'' \<mapsto> 4, ''pitch'' \<mapsto> 5, ''yaw'' \<mapsto> 6],
      joint_names = [''shoulder_left'', ''elbow_left''],
      default_configurations = [''reset'' \<mapsto> [0, 0]],
      default_trajectories = [''wave'' \<mapsto> [[0, 1], [1, 0]]],
      occupied_by = Some ''coke'', operational = True, ac_joint_traj_present = True,
      trace = []\<rparr>"

section \<open>Properties\<close>

subsection \<open>Traces and substrings\<close>

lemma operational_emit: "operational (emit ev self) = operational self"
  by (simp add: emit_def)

lemma trace_emit: "trace (emit ev self) = trace self @ [ev]"
  by (simp add: emit_def)

lemma emitted_append: "trace self' = trace self @ evs \<Longrightarrow> emitted self self' = evs"
  by (simp add: emitted_def)

lemma markers_of_append: "markers_of (xs @ ys) = markers_of xs @ markers_of ys"
  by (induction xs rule: markers_of.induct) simp_all

lemma grasp_goals_of_append: "grasp_goals_of (xs @ ys) = grasp_goals_of xs @ grasp_goals_of ys"
  by (induction xs rule: grasp_goals_of.induct) simp_all

lemma joint_goals_of_append: "joint_goals_of (xs @ ys) = joint_goals_of xs @ joint_goals_of ys"
  by (induction xs rule: joint_goals_of.induct) simp_all

lemma gripper_goals_of_append: "gripper_goals_of (xs @ ys) = gripper_goals_of xs @ gripper_goals_of ys"
  by (induction xs rule: gripper_goals_of.induct) simp_all

lemma str_find_nonneg_iff: "0 \<le> str_find s sub \<longleftrightarrow> sublist sub s"
  by (induction s) (auto simp: Let_def sublist_Cons_right)

lemma str_find_neg_iff: "str_find s sub < 0 \<longleftrightarrow> \<not> sublist sub s"
  using str_find_nonneg_iff [of s sub] by linarith

lemma trace_u_publish_marker:
  "trace (u_publish_marker self g color ns) = trace self @
     [PublishMarker \<lparr>m_frame_id = frame_id (goal g), m_type = 2,
         m_x = p_x (goal g), m_y = p_y (goal g), m_z = p_z (goal g),
         m_lifetime = 20, m_scale = (0.05, 0.05, 0.05), m_ns = ns,
         m_alpha = 1, m_color = color\<rparr>]"
  by (simp add: u_publish_marker_def trace_emit)

lemma add_offset_Some:
  assumes "off ''x'' = Some ox" "off ''y'' = Some oy" "off ''z'' = Some oz"
    and "off ''roll'' = Some oroll" "off ''pitch'' = Some opitch" "off ''yaw'' = Some oyaw"
  shows "add_offset off p =
     Inr (p\<lparr>p_x := p_x p + ox, p_y := p_y p + oy, p_z := p_z p + oz,
            p_roll := p_roll p + oroll, p_pitch := p_pitch p + opitch,
            p_yaw := p_yaw p + oyaw\<rparr>)"
  using assms by (simp add: add_offset_def)

lemma joints_loop_eq:
  "joints_loop self n refs ps =
     (self\<lparr>trace := trace self @
         map (\<lambda>jr. LogWarn (JointCountMismatch (length (joint_names self)) n))
           (filter (\<lambda>jr. length jr \<noteq> length (joint_names self)) refs)\<rparr>,
      ps @ map (\<lambda>jr. \<lparr>positions = jr, time_from_start = 0\<rparr>) refs)"
  by (induction refs arbitrary: self ps) (simp_all add: emit_def Let_def)

lemma joint_goals_of_warnings: "joint_goals_of (map (\<lambda>x. LogWarn (f x)) xs) = []"
  by (induction xs) simp_all

lemma is_wait_warnings: "filter is_wait (map (\<lambda>x. LogWarn (f x)) xs) = []"
  by (induction xs) simp_all

lemma send_delta_goal_delta_fields:
  fixes self :: "('a::{zero,plus}, 'e) Arm"
  shows "map (\<lambda>g. (delta g, goal g))
           (grasp_goals_of (emitted self (snd (send_delta_goal self px py pz roll pitch yaw
              timeout pre_grasp fid use_offset first_joint_pos_only result))))
       = [(\<lparr>frame_id = fid, p_x = px, p_y = py, p_z = pz,
             p_roll = roll, p_pitch = pitch, p_yaw = yaw\<rparr>, new_StampedPose)]"
  unfolding send_delta_goal_def Let_def emitted_def
  by (simp add: trace_emit trace_u_publish_marker grasp_goals_of_append
      new_GraspPrecomputeGoal_def)

lemma u_send_joint_trajectory_present:
  fixes self :: "('a, 'e) Arm" and joints_references :: "'a list list" and timeout :: real
  assumes "ac_joint_traj_present self \<or> probe"
  defines "g \<equiv> \<lparr>traj_joint_names = joint_names self,
             traj_points = map (\<lambda>jr. \<lparr>positions = jr, time_from_start = 0\<rparr>) joints_references,
             goal_time_tolerance = timeout\<rparr>"
  shows "emitted self (snd (u_send_joint_trajectory self joints_references timeout probe finished))
       = (if ac_joint_traj_present self then [] else [JointTrajWaitForServer 0.25])
         @ map (\<lambda>jr. LogWarn (JointCountMismatch (length (joint_names self))
                                   (length joints_references)))
             (filter (\<lambda>jr. length jr \<noteq> length (joint_names self)) joints_references)
         @ [LogDebug (SendToJointCoords (side self) (traj_points g)), JointTrajSendGoal g]
         @ (if timeout \<noteq> 0
            then JointTrajWaitForResult (timeout * real (length joints_references))
                   # (if finished then [] else [LogWarn (CannotReachJointGoal g)])
            else [])"
    and "fst (u_send_joint_trajectory self joints_references timeout probe finished)
       = (if timeout \<noteq> 0 then Inr finished else Inl (UnboundLocalError ''done''))"
  using assms(1) unfolding g_def u_send_joint_trajectory_def Let_def emitted_def joints_loop_eq
  by (auto simp: emit_def)

lemma send_goal_zero_timeout:
  fixes self :: "('a::{zero,plus}, 'e) Arm"
  assumes "offset self ''x'' = Some ox" "offset self ''y'' = Some oy"
    and "offset self ''z'' = Some oz" "offset self ''roll'' = Some oroll"
    and "offset self ''pitch'' = Some opitch" "offset self ''yaw'' = Some oyaw"
  shows "fst (send_goal self px py pz roll pitch yaw 0 pre_grasp fid
                first_joint_pos_only touch result) = Inr True"
    and "filter is_wait (emitted self (snd (send_goal self px py pz roll pitch yaw 0
                pre_grasp fid first_joint_pos_only touch result))) = []"
    and "length (grasp_goals_of (emitted self (snd (send_goal self px py pz roll pitch yaw 0
                pre_grasp fid first_joint_pos_only touch result)))) = 1"
  unfolding send_goal_def Let_def emitted_def add_offset_Some [OF assms]
  by (simp_all add: trace_emit trace_u_publish_marker grasp_goals_of_append)

lemma send_goal_frame_id:
  fixes self :: "('a::{zero,plus}, 'e) Arm"
  assumes "offset self ''x'' = Some ox" "offset self ''y'' = Some oy"
    and "offset self ''z'' = Some oz" "offset self ''roll'' = Some oroll"
    and "offset self ''pitch'' = Some opitch" "offset self ''yaw'' = Some oyaw"
  shows "map (\<lambda>g. frame_id (goal g))
           (grasp_goals_of (emitted self (snd (send_goal self px py pz roll pitch yaw timeout
                pre_grasp fid first_joint_pos_only touch result))))
       = [prefix_frame_id (robot_name self) fid]"
  unfolding send_goal_def Let_def emitted_def add_offset_Some [OF assms]
  by (simp add: trace_emit trace_u_publish_marker grasp_goals_of_append)

lemma send_delta_goal_zero_timeout:
  fixes self :: "('a::{zero,plus}, 'e) Arm"
  shows "fst (send_delta_goal self px py pz roll pitch yaw 0 pre_grasp fid use_offset
                first_joint_pos_only result) = True"
    and "filter is_wait (emitted self (snd (send_delta_goal self px py pz roll pitch yaw 0
                pre_grasp fid use_offset first_joint_pos_only result))) = []"
    and "length (grasp_goals_of (emitted self (snd (send_delta_goal self px py pz roll pitch
                yaw 0 pre_grasp fid use_offset first_joint_pos_only result)))) = 1"
  unfolding send_delta_goal_def Let_def emitted_def
  by (simp_all add: trace_emit trace_u_publish_marker grasp_goals_of_append)

lemma u_send_joint_trajectory_absent:
  fixes self :: "('a, 'e) Arm"
  assumes "\<not> ac_joint_traj_present self" and "\<not> probe"
  shows "u_send_joint_trajectory self joints_references timeout probe finished =
     (Inr False, self\<lparr>trace := trace self @
        [JointTrajWaitForServer 0.25, LogWarn JointTrajectoryAbsent]\<rparr>)"
  using assms unfolding u_send_joint_trajectory_def Let_def
  by (simp add: emit_def)

subsection \<open>Hardware status\<close>

text \<open>
  C5. When the report holds exactly one sub-report named \<open>side_arm\<close>, the flag
  afterwards is true exactly when that sub-report's level is 2. When it holds none
  or more than one, the flag keeps its value.
\<close>

theorem cb_hardware_status_operational:
  fixes self :: "('a, 'e) Arm" and msg :: DiagnosticArray
  defines "diags \<equiv> filter (\<lambda>d. diag_name d = side self @ ''_arm'') (status msg)"
  shows "(length diags = 1 \<longrightarrow>
            operational (cb_hardware_status self msg) = (diag_level (hd diags) = 2))
       \<and> (length diags \<noteq> 1 \<longrightarrow>
            operational (cb_hardware_status self msg) = operational self)"
proof (intro conjI impI)
  assume one: "length diags = 1"
  then obtain d where d: "diags = [d]"
    by (cases diags) auto
  then show "operational (cb_hardware_status self msg) = (diag_level (hd diags) = 2)"
    using diags_def by (simp add: cb_hardware_status_def Let_def)
next
  assume "length diags \<noteq> 1"
  then show "operational (cb_hardware_status self msg) = operational self"
    using diags_def by (simp add: cb_hardware_status_def Let_def operational_emit)
qed

theorem cb_hardware_status_operational_witness:
  "length (filter (\<lambda>d. diag_name d = side amigo_left @ ''_arm'')
      (status \<lparr>status = [\<lparr>diag_name = ''left_arm'', diag_level = 4\<rparr>,
                         \<lparr>diag_name = ''right_arm'', diag_level = 2\<rparr>]\<rparr>)) = 1
 \<and> operational (cb_hardware_status amigo_left
      \<lparr>status = [\<lparr>diag_name = ''left_arm'', diag_level = 4\<rparr>,
                 \<lparr>diag_name = ''right_arm'', diag_level = 2\<rparr>]\<rparr>) = False
 \<and> length (filter (\<lambda>d. diag_name d = side amigo_left @ ''_arm'')
      (status \<lparr>status = [\<lparr>diag_name = ''right_arm'', diag_level = 4\<rparr>]\<rparr>)) \<noteq> 1
 \<and> operational (cb_hardware_status amigo_left
      \<lparr>status = [\<lparr>diag_name = ''right_arm'', diag_level = 4\<rparr>]\<rparr>) = operational amigo_left"
  using cb_hardware_status_operational [of amigo_left
      "\<lparr>status = [\<lparr>diag_name = ''left_arm'', diag_level = 4\<rparr>,
                  \<lparr>diag_name = ''right_arm'', diag_level = 2\<rparr>]\<rparr>"]
    cb_hardware_status_operational [of amigo_left
      "\<lparr>status = [\<lparr>diag_name = ''right_arm'', diag_level = 4\<rparr>]\<rparr>"]
  by (simp add: amigo_left_def)

subsection \<open>Frame ids\<close>

text \<open>
  C6. A frame id that does not contain the robot's name gets \<open>/name\<close> put in front,
  once; one that contains it is left as it is; so prefixing twice is prefixing once.
\<close>

theorem prefix_frame_id_idempotent:
  "(\<not> sublist name fid \<longrightarrow> prefix_frame_id name fid = ''/'' @ name @ fid)
 \<and> (sublist name fid \<longrightarrow> prefix_frame_id name fid = fid)
 \<and> prefix_frame_id name (prefix_frame_id name fid) = prefix_frame_id name fid"
proof -
  have "sublist name (''/'' @ name @ fid)"
    by (rule sublist_appendI)
  then show ?thesis
    by (simp add: prefix_frame_id_def str_find_neg_iff)
qed

theorem prefix_frame_id_idempotent_witness:
  "\<not> sublist ''amigo'' ''/base_link''
 \<and> prefix_frame_id ''amigo'' ''/base_link'' = ''/amigo/base_link''
 \<and> sublist ''amigo'' ''/amigo/base_link''
 \<and> prefix_frame_id ''amigo'' ''/amigo/base_link'' = ''/amigo/base_link''"
  using prefix_frame_id_idempotent [of "''amigo''" "''/base_link''"]
    prefix_frame_id_idempotent [of "''amigo''" "''/amigo/base_link''"]
  by (simp add: sublist_Cons_right)

subsection \<open>Cartesian goals\<close>

text \<open>
  C1. With an offset dictionary that holds the six keys, \<^verbatim>\<open>send_goal\<close> hands the
  endpoint one goal, whose six \<open>goal\<close> fields are the six arguments plus the offset,
  field by field, and publishes two markers: first \<open>grasp_point\<close> at the position
  asked for, then \<open>grasp_point_corrected\<close> at the position with the offset added.
  A marker carries the position of a pose; \<^verbatim>\<open>_publish_marker\<close> does not read the
  three angles.
\<close>

theorem send_goal_offset_and_markers:
  fixes self :: "('a::{zero,plus}, 'e) Arm" and px py pz roll pitch yaw :: 'a
    and timeout :: real and pre_grasp first_joint_pos_only :: bool and fid :: string
    and touch :: "string list" and result :: GoalStatus
  assumes "offset self ''x'' = Some ox" "offset self ''y'' = Some oy"
    and "offset self ''z'' = Some oz" "offset self ''roll'' = Some oroll"
    and "offset self ''pitch'' = Some opitch" "offset self ''yaw'' = Some oyaw"
  defines "evs \<equiv> emitted self (snd (send_goal self px py pz roll pitch yaw timeout
                     pre_grasp fid first_joint_pos_only touch result))"
  shows "map (\<lambda>g. (p_x (goal g), p_y (goal g), p_z (goal g),
                    p_roll (goal g), p_pitch (goal g), p_yaw (goal g)))
             (grasp_goals_of evs)
           = [(px + ox, py + oy, pz + oz, roll + oroll, pitch + opitch, yaw + oyaw)]
       \<and> map (\<lambda>m. (m_ns m, m_x m, m_y m, m_z m)) (markers_of evs)
           = [(''grasp_point'', px, py, pz),
              (''grasp_point_corrected'', px + ox, py + oy, pz + oz)]"
proof -
  let ?g = "new_GraspPrecomputeGoal
                \<lparr>goal := \<lparr>frame_id = prefix_frame_id (robot_name self) fid, p_x = px, p_y = py, p_z = pz,
                           p_roll = roll, p_pitch = pitch, p_yaw = yaw\<rparr>,
                 PERFORM_PRE_GRASP := pre_grasp,
                 FIRST_JOINT_POS_ONLY := first_joint_pos_only,
                 allowed_touch_objects := touch\<rparr>"
  have off: "add_offset (offset self) (goal ?g) =
     Inr ((goal ?g)\<lparr>p_x := px + ox, p_y := py + oy, p_z := pz + oz,
            p_roll := roll + oroll, p_pitch := pitch + opitch,
            p_yaw := yaw + oyaw\<rparr>)"
    using add_offset_Some [OF assms(1-6), of "goal ?g"] by simp
  show ?thesis
    unfolding evs_def emitted_def send_goal_def Let_def off
    by (simp add: trace_emit trace_u_publish_marker markers_of_append grasp_goals_of_append)
qed

theorem send_goal_offset_and_markers_witness:
  "offset amigo_left ''x'' = Some 1 \<and> offset amigo_left ''y'' = Some 2
 \<and> offset amigo_left ''z'' = Some 3 \<and> offset amigo_left ''roll'' = Some 4
 \<and> offset amigo_left ''pitch'' = Some 5 \<and> offset amigo_left ''yaw'' = Some 6
 \<and> map (\<lambda>g. (p_x (goal g), p_y (goal g), p_z (goal g),
               p_roll (goal g), p_pitch (goal g), p_yaw (goal g)))
     (grasp_goals_of (emitted amigo_left (snd (send_goal amigo_left 10 20 30 40 50 60 30
         False ''/base_link'' False [] ABORTED))))
      = [(11, 22, 33, 44, 55, 66)]
 \<and> map (\<lambda>m. (m_ns m, m_x m, m_y m, m_z m))
     (markers_of (emitted amigo_left (snd (send_goal amigo_left 10 20 30 40 50 60 30
         False ''/base_link'' False [] ABORTED))))
      = [(''grasp_point'', 10, 20, 30), (''grasp_point_corrected'', 11, 22, 33)]"
proof -
  have k: "offset amigo_left ''x'' = Some 1" "offset amigo_left ''y'' = Some 2"
    "offset amigo_left ''z'' = Some 3" "offset amigo_left ''roll'' = Some 4"
    "offset amigo_left ''pitch'' = Some 5" "offset amigo_left ''yaw'' = Some 6"
    by (simp_all add: amigo_left_def)
  show ?thesis
    using k send_goal_offset_and_markers [OF k, of 10 20 30 40 50 60 30
        False "''/base_link''" False "[]" ABORTED]
    by simp
qed

subsection \<open>Gripper\<close>

text \<open>
  C2. For a state that is \<open>open\<close> or \<open>close\<close>: with a timeout of zero (or \<^verbatim>\<open>None\<close>)
  the call returns \<open>True\<close> with no wait in its trace, and the held entity is cleared
  when the state is \<open>open\<close> and kept when it is \<open>close\<close>; with any other timeout the
  call returns whether the status reported is \<open>SUCCEEDED\<close>, and the held entity is
  cleared when the state is \<open>open\<close> and the status \<open>SUCCEEDED\<close>, and kept otherwise;
  \<open>close\<close> keeps the held entity on every path.
\<close>

theorem send_gripper_goal_occupancy:
  fixes self :: "('a, 'e) Arm" and state :: string and timeout :: "real option"
    and gstate :: GoalStatus
  assumes "state = ''open'' \<or> state = ''close''"
  defines "r \<equiv> send_gripper_goal self state timeout gstate"
  shows "(timeout = Some 0 \<or> timeout = None \<longrightarrow>
            fst r = True \<and> filter is_wait (emitted self (snd r)) = []
          \<and> occupied_by (snd r) = (if state = ''open'' then None else occupied_by self))
       \<and> (timeout \<noteq> Some 0 \<and> timeout \<noteq> None \<longrightarrow>
            fst r = (gstate = SUCCEEDED)
          \<and> occupied_by (snd r) =
              (if state = ''open'' \<and> gstate = SUCCEEDED then None else occupied_by self))
       \<and> (state = ''close'' \<longrightarrow> occupied_by (snd r) = occupied_by self)"
  using assms(1) unfolding r_def send_gripper_goal_def Let_def emitted_def
  by (auto simp: emit_def split: option.splits)

theorem send_gripper_goal_occupancy_witness:
  "(''open'' = ''open'' \<or> ''open'' = ''close'') \<and> (Some (0::real) = Some 0 \<or> Some (0::real) = None)
 \<and> fst (send_gripper_goal amigo_left ''open'' (Some 0) ABORTED) = True
 \<and> occupied_by amigo_left = Some ''coke''
 \<and> occupied_by (snd (send_gripper_goal amigo_left ''open'' (Some 0) ABORTED)) = None
 \<and> (''close'' = ''open'' \<or> ''close'' = ''close'') \<and> Some (5::real) \<noteq> Some 0 \<and> Some (5::real) \<noteq> None
 \<and> fst (send_gripper_goal amigo_left ''close'' (Some 5) ABORTED) = False
 \<and> occupied_by (snd (send_gripper_goal amigo_left ''close'' (Some 5) ABORTED)) = Some ''coke''
 \<and> fst (send_gripper_goal amigo_left ''open'' (Some 5) SUCCEEDED) = True
 \<and> occupied_by (snd (send_gripper_goal amigo_left ''open'' (Some 5) SUCCEEDED)) = None
 \<and> fst (send_gripper_goal amigo_left ''open'' (Some 5) ABORTED) = False
 \<and> occupied_by (snd (send_gripper_goal amigo_left ''open'' (Some 5) ABORTED)) = Some ''coke''"
  using send_gripper_goal_occupancy [where state = "''open''" and self = amigo_left
      and timeout = "Some 0" and gstate = ABORTED]
    send_gripper_goal_occupancy [where state = "''close''" and self = amigo_left
      and timeout = "Some 5" and gstate = ABORTED]
    send_gripper_goal_occupancy [where state = "''open''" and self = amigo_left
      and timeout = "Some 5" and gstate = SUCCEEDED]
    send_gripper_goal_occupancy [where state = "''open''" and self = amigo_left
      and timeout = "Some 5" and gstate = ABORTED]
  by (simp add: amigo_left_def)

text \<open>
  C9. For a state that is neither \<open>open\<close> nor \<open>close\<close>, whatever the timeout, the call
  returns \<open>False\<close>, its only effect is one error log line, so no goal reaches the
  gripper endpoint, and the held entity is kept.
\<close>

theorem send_gripper_goal_bad_state:
  fixes self :: "('a, 'e) Arm" and state :: string and timeout :: "real option"
    and gstate :: GoalStatus
  assumes "state \<noteq> ''open''" and "state \<noteq> ''close''"
  defines "r \<equiv> send_gripper_goal self state timeout gstate"
  shows "fst r = False
       \<and> emitted self (snd r) = [LogErr (BadGripperState state)]
       \<and> gripper_goals_of (emitted self (snd r)) = []
       \<and> occupied_by (snd r) = occupied_by self"
  using assms(1,2) unfolding r_def send_gripper_goal_def emitted_def
  by (simp add: emit_def)

theorem send_gripper_goal_bad_state_witness:
  "''grab'' \<noteq> ''open'' \<and> ''grab'' \<noteq> ''close''
 \<and> fst (send_gripper_goal amigo_left ''grab'' (Some 0) SUCCEEDED) = False
 \<and> gripper_goals_of (emitted amigo_left
       (snd (send_gripper_goal amigo_left ''grab'' (Some 0) SUCCEEDED))) = []
 \<and> occupied_by (snd (send_gripper_goal amigo_left ''grab'' (Some 0) SUCCEEDED)) = Some ''coke''"
  using send_gripper_goal_bad_state [where state = "''grab''" and self = amigo_left
      and timeout = "Some 0" and gstate = SUCCEEDED]
  by (simp add: amigo_left_def)

subsection \<open>Handover\<close>

text \<open>
  C8. With a positive timeout, \<^verbatim>\<open>handover_to_human\<close> and \<^verbatim>\<open>handover_to_robot\<close> wait
  on the topic \<open>/robot/handoverdetector_side/result\<close> with that timeout; when a
  message arrives in time they return \<open>True\<close>, whatever boolean it carries; when
  none does they log an error and return \<open>False\<close>.
\<close>

theorem handover_reply_or_timeout:
  fixes self :: "('a, 'e) Arm" and timeout :: real
  assumes "0 < timeout"
  defines "topic \<equiv> ''/'' @ robot_name self @ ''/handoverdetector_'' @ side self @ ''/result''"
  shows "fst (handover_to_human self timeout (Some b)) = True
       \<and> fst (handover_to_human self timeout None) = False
       \<and> LogErr HandoverException \<in> set (emitted self (snd (handover_to_human self timeout None)))
       \<and> WaitForMessage topic timeout
            \<in> set (emitted self (snd (handover_to_human self timeout reply)))
       \<and> fst (handover_to_robot self timeout (Some b)) = True
       \<and> fst (handover_to_robot self timeout None) = False
       \<and> LogErr HandoverException \<in> set (emitted self (snd (handover_to_robot self timeout None)))
       \<and> WaitForMessage topic timeout
            \<in> set (emitted self (snd (handover_to_robot self timeout reply)))"
  unfolding topic_def handover_to_human_def handover_to_robot_def Let_def emitted_def
    handover_result_topic_def
  by (simp add: emit_def split: option.splits)

theorem handover_reply_or_timeout_witness:
  "(0::real) < 10
 \<and> fst (handover_to_human amigo_left 10 (Some False)) = True
 \<and> fst (handover_to_human amigo_left 10 None) = False
 \<and> fst (handover_to_robot amigo_left 10 (Some False)) = True
 \<and> fst (handover_to_robot amigo_left 10 None) = False
 \<and> WaitForMessage ''/amigo/handoverdetector_left/result'' 10
      \<in> set (emitted amigo_left (snd (handover_to_human amigo_left 10 None)))"
  using handover_reply_or_timeout [where timeout = 10 and self = amigo_left and b = False
      and reply = None]
  by (simp add: amigo_left_def)

subsection \<open>Named joint goals\<close>

text \<open>
  C10. For a name that is not a key of \<open>default_configurations\<close>, \<^verbatim>\<open>send_joint_goal\<close>
  returns \<open>False\<close> and hands no goal to the joint-trajectory endpoint; the same holds
  for \<^verbatim>\<open>send_joint_trajectory\<close> and the keys of \<open>default_trajectories\<close>.
\<close>

theorem unknown_name_not_submitted:
  fixes self :: "('a, 'e) Arm"
  shows "(configuration \<notin> dom (default_configurations self) \<longrightarrow>
            fst (send_joint_goal self configuration probe finished) = Inr False
          \<and> joint_goals_of (emitted self
                (snd (send_joint_goal self configuration probe finished))) = [])
       \<and> (configuration \<notin> dom (default_trajectories self) \<longrightarrow>
            fst (send_joint_trajectory self configuration probe finished) = Inr False
          \<and> joint_goals_of (emitted self
                (snd (send_joint_trajectory self configuration probe finished))) = [])"
  unfolding send_joint_goal_def send_joint_trajectory_def emitted_def
  by (auto simp: emit_def)

theorem unknown_name_not_submitted_witness:
  "''wave'' \<notin> dom (default_configurations amigo_left)
 \<and> fst (send_joint_goal amigo_left ''wave'' True True) = Inr False
 \<and> joint_goals_of (emitted amigo_left (snd (send_joint_goal amigo_left ''wave'' True True))) = []
 \<and> ''reset'' \<notin> dom (default_trajectories amigo_left)
 \<and> fst (send_joint_trajectory amigo_left ''reset'' True True) = Inr False
 \<and> joint_goals_of (emitted amigo_left
      (snd (send_joint_trajectory amigo_left ''reset'' True True))) = []"
  using unknown_name_not_submitted [where configuration = "''wave''" and self = amigo_left
      and probe = True and finished = True]
    unknown_name_not_submitted [where configuration = "''reset''" and self = amigo_left
      and probe = True and finished = True]
  by (simp add: amigo_left_def)

subsection \<open>Joint trajectories\<close>

text \<open>
  C7. When the joint-trajectory endpoint is present (or the probe finds it) and some
  waypoint has a length other than that of \<open>joint_names\<close>, the warning is logged and
  one goal is handed to the endpoint, with every waypoint in it, the mismatched ones
  too; with a timeout other than zero the call returns what the wait reports.
\<close>

theorem mismatched_waypoint_still_submitted:
  fixes self :: "('a, 'e) Arm" and joints_references :: "'a list list" and timeout :: real
    and probe finished :: bool
  assumes "ac_joint_traj_present self \<or> probe"
    and "\<exists>jr \<in> set joints_references. length jr \<noteq> length (joint_names self)"
  defines "r \<equiv> u_send_joint_trajectory self joints_references timeout probe finished"
  shows "LogWarn (JointCountMismatch (length (joint_names self)) (length joints_references))
           \<in> set (emitted self (snd r))
       \<and> joint_goals_of (emitted self (snd r)) =
           [\<lparr>traj_joint_names = joint_names self,
             traj_points = map (\<lambda>jr. \<lparr>positions = jr, time_from_start = 0\<rparr>) joints_references,
             goal_time_tolerance = timeout\<rparr>]
       \<and> (timeout \<noteq> 0 \<longrightarrow> fst r = Inr finished)"
proof -
  from assms(2) have "LogWarn (JointCountMismatch (length (joint_names self))
                         (length joints_references))
      \<in> set (map (\<lambda>jr. LogWarn (JointCountMismatch (length (joint_names self))
                                   (length joints_references)))
             (filter (\<lambda>jr. length jr \<noteq> length (joint_names self)) joints_references))"
    by auto
  then show ?thesis
    unfolding r_def u_send_joint_trajectory_present [OF assms(1)]
    by (simp add: joint_goals_of_append joint_goals_of_warnings)
qed

theorem mismatched_waypoint_still_submitted_witness:
  "(ac_joint_traj_present amigo_left \<or> False)
 \<and> (\<exists>jr \<in> set [[0, 1], [7::int]]. length jr \<noteq> length (joint_names amigo_left))
 \<and> LogWarn (JointCountMismatch 2 2)
      \<in> set (emitted amigo_left (snd (u_send_joint_trajectory amigo_left [[0, 1], [7]] 5 False False)))
 \<and> joint_goals_of (emitted amigo_left
      (snd (u_send_joint_trajectory amigo_left [[0, 1], [7]] 5 False False))) =
      [\<lparr>traj_joint_names = [''shoulder_left'', ''elbow_left''],
        traj_points = [\<lparr>positions = [0, 1], time_from_start = 0\<rparr>,
                       \<lparr>positions = [7], time_from_start = 0\<rparr>],
        goal_time_tolerance = 5\<rparr>]
 \<and> fst (u_send_joint_trajectory amigo_left [[0, 1], [7]] 5 False False) = Inr False"
proof -
  have present: "ac_joint_traj_present amigo_left \<or> False"
    by (simp add: amigo_left_def)
  have mismatch: "\<exists>jr \<in> set [[0, 1], [7::int]]. length jr \<noteq> length (joint_names amigo_left)"
    by (simp add: amigo_left_def)
  have names: "joint_names amigo_left = [''shoulder_left'', ''elbow_left'']"
    by (simp add: amigo_left_def)
  show ?thesis
    using present mismatch
      mismatched_waypoint_still_submitted [OF present mismatch, where timeout = 5
        and finished = False]
    by (simp add: names numeral_2_eq_2)
qed

subsection \<open>Relative goals\<close>

text \<open>
  C3, at an input where the code departs from it. \<^verbatim>\<open>send_delta_goal\<close> is called with
  \<^verbatim>\<open>use_offset=True\<close> on an arm whose offset is (1, 2, 3, 4, 5, 6). The goal handed
  to the endpoint has the six arguments in its \<open>delta\<close> fields, unchanged: the offset
  is not added. Its \<open>goal\<close> fields stay as constructed.
\<close>

theorem send_delta_goal_use_offset_not_applied:
  "map (\<lambda>g. (p_x (delta g), p_y (delta g), p_z (delta g),
               p_roll (delta g), p_pitch (delta g), p_yaw (delta g)))
     (grasp_goals_of (emitted amigo_left (snd (send_delta_goal amigo_left 10 20 30 40 50 60 0
         False ''/amigo/base_link'' True False SUCCEEDED))))
      = [(10, 20, 30, 40, 50, 60)]
 \<and> map goal
     (grasp_goals_of (emitted amigo_left (snd (send_delta_goal amigo_left 10 20 30 40 50 60 0
         False ''/amigo/base_link'' True False SUCCEEDED))))
      = [new_StampedPose]
 \<and> offset amigo_left ''x'' = Some 1"
  unfolding send_delta_goal_def Let_def emitted_def
  by (simp add: trace_emit trace_u_publish_marker grasp_goals_of_append
      new_GraspPrecomputeGoal_def amigo_left_def)

subsection \<open>A timeout of zero\<close>

text \<open>
  C4, at an input where the code departs from it. \<^verbatim>\<open>_send_joint_trajectory\<close> is called
  with a timeout of zero on an arm whose endpoint is present. The goal is handed to
  the endpoint and nothing is waited for, but the call does not return \<open>True\<close>:
  \<^verbatim>\<open>return done\<close> reads a name that was never assigned and raises.
\<close>

theorem u_send_joint_trajectory_zero_timeout_raises:
  "fst (u_send_joint_trajectory amigo_left [[0, 0]] 0 False True)
      = Inl (UnboundLocalError ''done'')
 \<and> joint_goals_of (emitted amigo_left
      (snd (u_send_joint_trajectory amigo_left [[0, 0]] 0 False True)))
      = [\<lparr>traj_joint_names = [''shoulder_left'', ''elbow_left''],
          traj_points = [\<lparr>positions = [0, 0], time_from_start = 0\<rparr>],
          goal_time_tolerance = 0\<rparr>]
 \<and> filter is_wait (emitted amigo_left
      (snd (u_send_joint_trajectory amigo_left [[0, 0]] 0 False True))) = []"
  unfolding u_send_joint_trajectory_def Let_def emitted_def
  by (simp add: emit_def amigo_left_def)

end
